theory Spec2Isabelle
  imports Main
begin

section \<open>Python strings\<close>

text \<open>
  A Python \<open>str\<close> is a sequence of code points. It is modelled as a \<open>string\<close> whose
  characters are the code points below 256 (so \<open>CHR 0xB1\<close> is the plus-minus sign of the
  address pattern, one character, as in Python). Strings holding code points from 256 on
  are outside the model.
\<close>

definition code :: "char \<Rightarrow> nat" where
  "code c = of_char c"

text \<open>\<open>str.isspace\<close> on one character, for the code points below 256.\<close>

definition isspace :: "char \<Rightarrow> bool" where
  "isspace c = ((9 \<le> code c \<and> code c \<le> 13) \<or> (28 \<le> code c \<and> code c \<le> 32)
                \<or> code c = 133 \<or> code c = 160)"

text \<open>\<open>str.strip()\<close>: leading and trailing whitespace removed.\<close>

definition strip :: "string \<Rightarrow> string" where
  "strip s = rev (dropWhile isspace (rev (dropWhile isspace s)))"

text \<open>
  \<open>str.lower()\<close>: below 256 the cased capitals are A-Z and U+00C0-U+00DE without the
  multiplication sign U+00D7; each maps to the code point 32 above it.
\<close>

definition lower_char :: "char \<Rightarrow> char" where
  "lower_char c =
     (if 65 \<le> code c \<and> code c \<le> 90 then char_of (code c + 32)
      else if 192 \<le> code c \<and> code c \<le> 214 then char_of (code c + 32)
      else if 216 \<le> code c \<and> code c \<le> 222 then char_of (code c + 32)
      else c)"

definition lower :: "string \<Rightarrow> string" where
  "lower s = map lower_char s"

text \<open>\<open>int(s)\<close> on a string of decimal digits, surrounding whitespace ignored.\<close>

definition py_int :: "string \<Rightarrow> nat" where
  "py_int s = foldl (\<lambda>n c. 10 * n + (code c - 48)) 0 (strip s)"


section \<open>Regular expressions as the \<open>re\<close> module runs them\<close>

text \<open>
  The fragment of \<open>re\<close> that the two patterns of the program use. An atom consumes one
  character: a literal, a literal compiled under \<open>re.IGNORECASE\<close>, the dot (anything but
  a newline), \<open>\d\<close>, or a bracket class of single characters and ranges.
\<close>

datatype citem = One char | Range char char

datatype atom = Lit char | LitI char | Dot | Digit | Class "citem list"

fun citem_ok :: "char \<Rightarrow> citem \<Rightarrow> bool" where
  "citem_ok c (One x) = (c = x)"
| "citem_ok c (Range lo hi) = (code lo \<le> code c \<and> code c \<le> code hi)"

fun atom_ok :: "atom \<Rightarrow> char \<Rightarrow> bool" where
  "atom_ok (Lit x) c = (c = x)"
| "atom_ok (LitI x) c = (lower_char c = lower_char x)"
| "atom_ok Dot c = (c \<noteq> CHR 0x0A)"
| "atom_ok Digit c = (code (CHR ''0'') \<le> code c \<and> code c \<le> code (CHR ''9''))"
| "atom_ok (Class items) c = list_ex (citem_ok c) items"

text \<open>
  \<open>AtLeast n a\<close> is the greedy repetition \<open>a{n,}\<close> of an atom (\<open>a+\<close> is \<open>AtLeast 1 a\<close>);
  \<open>Group name r\<close> is the named group \<open>(?P<name>r)\<close>.
\<close>

datatype rx = Eps | Atom atom | Seq rx rx | Alt rx rx | AtLeast nat atom | Group string rx

type_synonym groups = "(string \<times> string) list"

text \<open>
  The backtracking matcher: all the ways the expression can match at the start of the
  text, in the order the engine tries them (left alternative first, longest repetition
  first), each with the groups captured and the text left over.
\<close>

fun rx_match :: "rx \<Rightarrow> groups \<times> string \<Rightarrow> (groups \<times> string) list" where
  "rx_match Eps st = [st]"
| "rx_match (Atom a) (g, s) =
     (case s of [] \<Rightarrow> [] | c # t \<Rightarrow> if atom_ok a c then [(g, t)] else [])"
| "rx_match (Seq a b) st = concat (map (rx_match b) (rx_match a st))"
| "rx_match (Alt a b) st = rx_match a st @ rx_match b st"
| "rx_match (AtLeast n a) (g, s) =
     map (\<lambda>k. (g, drop k s)) (rev [n ..< Suc (length (takeWhile (atom_ok a) s))])"
| "rx_match (Group name r) (g, s) =
     map (\<lambda>(g', t). ((name, take (length s - length t) s) # g', t)) (rx_match r (g, s))"

fun cat :: "rx list \<Rightarrow> rx" where
  "cat [] = Eps"
| "cat [r] = r"
| "cat (r # rs) = Seq r (cat rs)"

text \<open>\<open>pattern.match(s)\<close>: the first match at the start of \<open>s\<close>, or \<open>None\<close>.\<close>

definition re_match :: "rx \<Rightarrow> string \<Rightarrow> (groups \<times> string) option" where
  "re_match r s = (case rx_match r ([], s) of [] \<Rightarrow> None | m # ms \<Rightarrow> Some m)"

definition group :: "groups \<Rightarrow> string \<Rightarrow> string" where
  "group g name = (case map_of g name of None \<Rightarrow> [] | Some v \<Rightarrow> v)"


section \<open>\<open>datetime.strptime\<close> with the format of the validator\<close>

datatype py_error = KeyError string | ValueError | IndexError | AttributeError | APIError

record datetime =
  year :: nat
  month :: nat
  day :: nat
  hour :: nat
  minute :: nat
  second :: nat

text \<open>
  The regular expression that \<open>_strptime\<close> builds for \<open>%Y-%m-%dT%H:%M:%SZ\<close>:
  \<^verbatim>\<open>(?P<Y>\d\d\d\d)-(?P<m>1[0-2]|0[1-9]|[1-9])-(?P<d>3[0-1]|[1-2]\d|0[1-9]|[1-9]| [1-9])\<close>
  \<^verbatim>\<open>T(?P<H>2[0-3]|[0-1]\d|\d):(?P<M>[0-5]\d|\d):(?P<S>6[0-1]|[0-5]\d|\d)Z\<close>
  compiled with \<open>re.IGNORECASE\<close>, which only matters for the letters \<open>T\<close> and \<open>Z\<close>.
\<close>

definition dig :: "char \<Rightarrow> char \<Rightarrow> rx" where
  "dig lo hi = Atom (Class [Range lo hi])"

definition ch :: "char \<Rightarrow> rx" where
  "ch c = Atom (Lit c)"

definition year_re :: rx where
  "year_re = Group ''Y'' (cat [Atom Digit, Atom Digit, Atom Digit, Atom Digit])"

definition month_re :: rx where
  "month_re = Group ''m'' (Alt (Seq (ch (CHR ''1'')) (dig (CHR ''0'') (CHR ''2'')))
                         (Alt (Seq (ch (CHR ''0'')) (dig (CHR ''1'') (CHR ''9'')))
                              (dig (CHR ''1'') (CHR ''9''))))"

definition day_re :: rx where
  "day_re = Group ''d'' (Alt (Seq (ch (CHR ''3'')) (dig (CHR ''0'') (CHR ''1'')))
                       (Alt (Seq (dig (CHR ''1'') (CHR ''2'')) (Atom Digit))
                       (Alt (Seq (ch (CHR ''0'')) (dig (CHR ''1'') (CHR ''9'')))
                       (Alt (dig (CHR ''1'') (CHR ''9''))
                            (Seq (ch (CHR '' '')) (dig (CHR ''1'') (CHR ''9'')))))))"

definition hour_re :: rx where
  "hour_re = Group ''H'' (Alt (Seq (ch (CHR ''2'')) (dig (CHR ''0'') (CHR ''3'')))
                        (Alt (Seq (dig (CHR ''0'') (CHR ''1'')) (Atom Digit))
                             (Atom Digit)))"

definition minute_re :: rx where
  "minute_re = Group ''M'' (Alt (Seq (dig (CHR ''0'') (CHR ''5'')) (Atom Digit)) (Atom Digit))"

definition second_re :: rx where
  "second_re = Group ''S'' (Alt (Seq (ch (CHR ''6'')) (dig (CHR ''0'') (CHR ''1'')))
                          (Alt (Seq (dig (CHR ''0'') (CHR ''5'')) (Atom Digit))
                               (Atom Digit)))"

definition time_re :: rx where
  "time_re = cat
     [year_re, ch (CHR ''-''), month_re, ch (CHR ''-''), day_re, Atom (LitI (CHR ''T'')),
      hour_re, ch (CHR '':''), minute_re, ch (CHR '':''), second_re, Atom (LitI (CHR ''Z''))]"

definition is_leap :: "nat \<Rightarrow> bool" where
  "is_leap y = (y mod 4 = 0 \<and> (0 < y mod 100 \<or> y mod 400 = 0))"

definition days_in_month :: "nat \<Rightarrow> nat \<Rightarrow> nat" where
  "days_in_month y m =
     (if m = 2 then (if is_leap y then 29 else 28)
      else if m = 4 \<or> m = 6 \<or> m = 9 \<or> m = 11 then 30 else 31)"

text \<open>
  \<open>datetime.strptime(s, "%Y-%m-%dT%H:%M:%SZ")\<close>: the text must match the expression
  and leave nothing over; then \<open>date(year, month, day)\<close> and the \<open>datetime\<close> constructor
  check the ranges, and each failure is a \<open>ValueError\<close>.
\<close>

definition strptime :: "string \<Rightarrow> py_error + datetime" where
  "strptime s =
     (case re_match time_re s of
        None \<Rightarrow> Inl ValueError
      | Some (g, rest) \<Rightarrow>
          if rest \<noteq> [] then Inl ValueError
          else
            let y = py_int (group g ''Y''); m = py_int (group g ''m'');
                d = py_int (group g ''d''); H = py_int (group g ''H'');
                M = py_int (group g ''M''); S = py_int (group g ''S'')
            in if y < 1 then Inl ValueError
               else if m < 1 \<or> 12 < m then Inl ValueError
               else if d < 1 \<or> days_in_month y m < d then Inl ValueError
               else if 23 < H \<or> 59 < M \<or> 59 < S then Inl ValueError
               else Inr \<lparr>year = y, month = m, day = d, hour = H, minute = M, second = S\<rparr>)"


section \<open>Emails, results and the world the program runs in\<close>

text \<open>
  An email is a \<open>Dict\<close> from field names to strings; a processing result is the
  dictionary with the four keys that \<open>process_email\<close> builds.
\<close>

type_synonym email = "string \<rightharpoonup> string"

record result =
  email_id :: string
  success :: bool
  classification :: string
  response_sent :: "string option"

text \<open>
  The request of \<open>client.chat.completions.create\<close> and the part of its answer that the
  program reads: \<open>completions.choices[0].message.content\<close>.
\<close>

record request =
  model :: string
  messages :: "(string \<times> string) list"
  max_tokens :: nat

record message =
  content :: "string option"

record choice =
  message :: message

record completion =
  choices :: "choice list"

text \<open>
  The remote service is any function from a request and its own state to an answer
  (or an exception, \<open>Inl\<close>) and a next state. The world is the state of the service,
  the requests sent to it so far, and the lines handed to the logger.
\<close>

type_synonym 's remote = "request \<Rightarrow> 's \<Rightarrow> (py_error + completion) \<times> 's"

record 's world =
  remote_st :: 's
  calls :: "request list"
  logs :: "string list"

definition logger_info :: "string \<Rightarrow> 's world \<Rightarrow> 's world" where
  "logger_info msg w = w\<lparr>logs := logs w @ [msg]\<rparr>"

definition create :: "'s remote \<Rightarrow> request \<Rightarrow> 's world \<Rightarrow> (py_error + completion) \<times> 's world" where
  "create client req w =
     (case client req (remote_st w) of
        (r, s') \<Rightarrow> (r, w\<lparr>remote_st := s', calls := calls w @ [req]\<rparr>))"

text \<open>\<open>completions.choices[0].message.content\<close>, ready for a string method.\<close>

definition first_content :: "completion \<Rightarrow> py_error + string" where
  "first_content c =
     (case choices c of
        [] \<Rightarrow> Inl IndexError
      | x # xs \<Rightarrow> (case content (message x) of
                     None \<Rightarrow> Inl AttributeError
                   | Some t \<Rightarrow> Inr t))"

text \<open>
  What the \<open>try\<close> block holds when it reaches the string method: the exception of the
  call or of the access, or the text.
\<close>

definition message_content :: "py_error + completion \<Rightarrow> py_error + string" where
  "message_content r = (case r of Inl e \<Rightarrow> Inl e | Inr completions \<Rightarrow> first_content completions)"

definition nl :: string where
  "nl = [CHR 0x0A]"


section \<open>EmailProcessor\<close>

definition valid_categories :: "string set" where
  "valid_categories = {''complaint'', ''inquiry'', ''feedback'', ''support_request'', ''other''}"

definition classify_prompt :: "string \<Rightarrow> string \<Rightarrow> string" where
  "classify_prompt body subject =
     ''You're a helpful ai assistant with the task of classifying an email.'' @ nl @
     ''        For the email with body: '' @ body @ ''. And subject: '' @ subject @
     ''. Provide as an answer'' @ nl @
     ''        which of the following categories is the best fit, categories : ['' @ nl @
     ''            complaint'' @ nl @
     ''            inquiry'' @ nl @
     ''            feedback'' @ nl @
     ''            support_request'' @ nl @
     ''            other'' @ nl @
     ''        ] please reply only with one of the mentioned categories.'' @ nl @
     ''        ''"

definition classify_request :: "string \<Rightarrow> string \<Rightarrow> request" where
  "classify_request body subject =
     \<lparr>model = ''gpt-3.5-turbo'',
      messages = [(''user'', classify_prompt body subject)],
      max_tokens = 10\<rparr>"

text \<open>
  \<open>classify_email\<close>. The prompt is built before the \<open>try\<close>, so a missing \<open>body\<close> or
  \<open>subject\<close> raises; everything from the remote call to the return is inside the
  \<open>try\<close>, and the handler reads \<open>email["id"]\<close> for its log line.
\<close>

definition classify_email ::
  "'s remote \<Rightarrow> email \<Rightarrow> 's world \<Rightarrow> (py_error + string option) \<times> 's world" where
  "classify_email client email w =
     (case email ''body'' of
        None \<Rightarrow> (Inl (KeyError ''body''), w)
      | Some body \<Rightarrow>
     (case email ''subject'' of
        None \<Rightarrow> (Inl (KeyError ''subject''), w)
      | Some subject \<Rightarrow>
     (case create client (classify_request body subject) w of
        (r, w1) \<Rightarrow>
     (case message_content r of
        Inr text \<Rightarrow>
          (let category = lower (strip text)
           in if category \<in> valid_categories then (Inr (Some category), w1)
              else (Inr (Some ''other''), w1))
      | Inl e \<Rightarrow>
          (case email ''id'' of
             None \<Rightarrow> (Inl (KeyError ''id''), w1)
           | Some i \<Rightarrow> (Inr None, logger_info (''Error classifying email with id '' @ i) w1))))))"

definition dict_prompt :: "string \<rightharpoonup> string" where
  "dict_prompt = map_of
     [(''complaint'', ''Please give a considerate reply appologizing for the caused inconvenience and providing a way to fix the usser's issues if possible.''),
      (''inquiry'', ''Please reply with a thoughtful answer to the user's inquiry giving all necessary information.''),
      (''feedback'', ''Please thank the user for his valuable feedback. And tell that the necessary changes to accomodate for this will be carried out.''),
      (''support_request'', ''Please provide the user with helpful and clear instructions on how to troubleshot the issue.''),
      (''other'', ''Please answer thoughtfuly to the user providing a general answer to his inquiry.'')]"

definition response_prompt :: "string \<Rightarrow> string \<Rightarrow> string" where
  "response_prompt body instruction =
     ''You are a helpful ai assistant and your task is to reply to the following email that has '' @ nl @
     ''        the body :'' @ body @ ''. '' @ instruction @ ''.'' @ nl @
     ''        ''"

definition response_request :: "string \<Rightarrow> string \<Rightarrow> request" where
  "response_request body instruction =
     \<lparr>model = ''gpt-3.5-turbo'',
      messages = [(''user'', response_prompt body instruction)],
      max_tokens = 100\<rparr>"

text \<open>
  \<open>generate_response\<close>. The prompt, with its lookup in \<open>dict_prompt\<close>, is built before
  the \<open>try\<close>.
\<close>

definition generate_response ::
  "'s remote \<Rightarrow> email \<Rightarrow> string \<Rightarrow> 's world \<Rightarrow> (py_error + string option) \<times> 's world" where
  "generate_response client email category w =
     (case email ''body'' of
        None \<Rightarrow> (Inl (KeyError ''body''), w)
      | Some body \<Rightarrow>
     (case dict_prompt category of
        None \<Rightarrow> (Inl (KeyError category), w)
      | Some instruction \<Rightarrow>
     (case create client (response_request body instruction) w of
        (r, w1) \<Rightarrow>
     (case message_content r of
        Inr text \<Rightarrow> (Inr (Some (strip text)), w1)
      | Inl e \<Rightarrow>
          (case email ''id'' of
             None \<Rightarrow> (Inl (KeyError ''id''), w1)
           | Some i \<Rightarrow>
               (Inr None, logger_info (''Error generating response to email with id '' @ i) w1))))))"


section \<open>EmailAutomationSystem\<close>

definition mandatory_keys :: "string set" where
  "mandatory_keys = {''id'', ''from'', ''subject'', ''body'', ''timestamp''}"

text \<open>\<open>email.get("id", "Uknown")\<close>, with the default as the source spells it.\<close>

definition get_id :: "email \<Rightarrow> string" where
  "get_id email = (case email ''id'' of None \<Rightarrow> ''Uknown'' | Some i \<Rightarrow> i)"

text \<open>
  The address pattern of the source:
  \<^verbatim>\<open>[a-zA-Z0-9.*%\<close>\<open>\<plusminus>\<close>\<^verbatim>\<open>]+@[a-zA-Z0-9.-]+.[a-zA-Z]{2,}\<close>
  where the dot before the last class is not escaped.
\<close>

definition email_ex :: rx where
  "email_ex = cat
     [AtLeast 1 (Class [Range (CHR ''a'') (CHR ''z''), Range (CHR ''A'') (CHR ''Z''),
                        Range (CHR ''0'') (CHR ''9''), One (CHR ''.''), One (CHR ''*''),
                        One (CHR ''%''), One (CHR 0xB1)]),
      Atom (Lit (CHR ''@'')),
      AtLeast 1 (Class [Range (CHR ''a'') (CHR ''z''), Range (CHR ''A'') (CHR ''Z''),
                        Range (CHR ''0'') (CHR ''9''), One (CHR ''.''), One (CHR ''-'')]),
      Atom Dot,
      AtLeast 2 (Class [Range (CHR ''a'') (CHR ''z''), Range (CHR ''A'') (CHR ''Z'')])]"

text \<open>
  \<open>_validate_email\<close>: the three checks in order, each failure with its log line. The
  two subscripts are reached only with the keys present.
\<close>

definition validate_email :: "email \<Rightarrow> 's world \<Rightarrow> bool \<times> 's world" where
  "validate_email email w =
     (if \<not> mandatory_keys \<subseteq> dom email
      then (False, logger_info (''email with id '' @ get_id email @ '' has incorrect format.'') w)
      else if re_match email_ex (the (email ''from'')) = None
      then (False, logger_info (''email with id '' @ get_id email @
                                '' has incorrect 'from' address format.'') w)
      else (case strptime (the (email ''timestamp'')) of
              Inr t \<Rightarrow> (True, w)
            | Inl e \<Rightarrow> (False, logger_info (''email with id '' @ get_id email @
                                             '' has incorrect timestamp format.'') w)))"

definition send_response :: "string \<Rightarrow> string \<Rightarrow> 's world \<Rightarrow> 's world" where
  "send_response eid response w = logger_info (''Sending complaint response for email '' @ eid) w"

text \<open>Python truthiness of an \<open>Optional[str]\<close>: \<open>None\<close> and the empty string are false.\<close>

fun truthy :: "string option \<Rightarrow> bool" where
  "truthy None = False"
| "truthy (Some s) = (s \<noteq> [])"

definition getitem :: "email \<Rightarrow> string \<Rightarrow> py_error + string" where
  "getitem email k = (case email k of None \<Rightarrow> Inl (KeyError k) | Some v \<Rightarrow> Inr v)"

definition failure :: "string \<Rightarrow> string \<Rightarrow> result" where
  "failure eid phrase =
     \<lparr>email_id = eid, success = False, classification = phrase, response_sent = None\<rparr>"

definition process_email ::
  "'s remote \<Rightarrow> email \<Rightarrow> 's world \<Rightarrow> (py_error + result) \<times> 's world" where
  "process_email client email w =
     (case validate_email email w of
        (False, w1) \<Rightarrow> (Inr (failure (get_id email) ''Email in invalid format.''), w1)
      | (True, w1) \<Rightarrow>
     (case classify_email client email w1 of
        (Inl e, w2) \<Rightarrow> (Inl e, w2)
      | (Inr category, w2) \<Rightarrow>
          if \<not> truthy category
          then (case getitem email ''id'' of
                  Inl e \<Rightarrow> (Inl e, w2)
                | Inr i \<Rightarrow> (Inr (failure i ''Email classification error.''), w2))
          else
     (case generate_response client email (the category) w2 of
        (Inl e, w3) \<Rightarrow> (Inl e, w3)
      | (Inr response, w3) \<Rightarrow>
          if \<not> truthy response
          then (case getitem email ''id'' of
                  Inl e \<Rightarrow> (Inl e, w3)
                | Inr i \<Rightarrow> (Inr (failure i ''Response generation error.''), w3))
          else
     (case getitem email ''id'' of
        Inl e \<Rightarrow> (Inl e, w3)
      | Inr i \<Rightarrow>
          (Inr \<lparr>email_id = i, success = True, classification = the category,
                response_sent = response\<rparr>,
           send_response i (the response) w3)))))"


section \<open>The batch runner\<close>

definition sample_emails :: "email list" where
  "sample_emails =
     [map_of
        [(''id'', ''001''),
         (''from'', ''angry.customer@example.com''),
         (''subject'', ''Broken product received''),
         (''body'', ''I received my order #12345 yesterday but it arrived completely damaged. This is unacceptable and I demand a refund immediately. This is the worst customer service I've experienced.''),
         (''timestamp'', ''2024-03-15T10:30:00Z'')],
      map_of
        [(''id'', ''002''),
         (''from'', ''curious.shopper@example.com''),
         (''subject'', ''Question about product specifications''),
         (''body'', ''Hi, I'm interested in buying your premium package but I couldn't find information about whether it's compatible with Mac OS. Could you please clarify this? Thanks!''),
         (''timestamp'', ''2024-03-15T11:45:00Z'')],
      map_of
        [(''id'', ''003''),
         (''from'', ''happy.user@example.com''),
         (''subject'', ''Amazing customer support''),
         (''body'', ''I just wanted to say thank you for the excellent support I received from Sarah on your team. She went above and beyond to help resolve my issue. Keep up the great work!''),
         (''timestamp'', ''2024-03-15T13:15:00Z'')],
      map_of
        [(''id'', ''004''),
         (''from'', ''tech.user@example.com''),
         (''subject'', ''Need help with installation''),
         (''body'', ''I've been trying to install the software for the past hour but keep getting error code 5123. I've already tried restarting my computer and clearing the cache. Please help!''),
         (''timestamp'', ''2024-03-15T14:20:00Z'')],
      map_of
        [(''id'', ''005''),
         (''from'', ''business.client@example.com''),
         (''subject'', ''Partnership opportunity''),
         (''body'', ''Our company is interested in exploring potential partnership opportunities with your organization. Would it be possible to schedule a call next week to discuss this further?''),
         (''timestamp'', ''2024-03-15T15:00:00Z'')]]"

text \<open>
  The loop of \<open>run_demonstration\<close> over a list of emails, with the list of results built
  so far. Its log line reads \<open>email['id']\<close> before the email is processed.
\<close>

fun run_loop ::
  "'s remote \<Rightarrow> email list \<Rightarrow> result list \<Rightarrow> 's world \<Rightarrow> (py_error + result list) \<times> 's world" where
  "run_loop client [] results w = (Inr results, w)"
| "run_loop client (email # emails) results w =
     (case getitem email ''id'' of
        Inl e \<Rightarrow> (Inl e, w)
      | Inr i \<Rightarrow>
     (case process_email client email (logger_info (nl @ ''Processing email '' @ i @ ''...'') w) of
        (Inl e, w1) \<Rightarrow> (Inl e, w1)
      | (Inr r, w1) \<Rightarrow> run_loop client emails (results @ [r]) w1))"

text \<open>\<open>run_demonstration\<close>: the rows of the data frame it returns.\<close>

definition run_demonstration :: "'s remote \<Rightarrow> 's world \<Rightarrow> (py_error + result list) \<times> 's world" where
  "run_demonstration client w = run_loop client sample_emails [] w"


section \<open>The wording of the specification\<close>

text \<open>
  The address pattern as the specification words it: one or more of letters, digits,
  \<open>.\<close>, \<open>_\<close>, \<open>%\<close>, \<open>+\<close>, \<open>-\<close>; an \<open>@\<close>; a domain of letters, digits, \<open>.\<close>, \<open>-\<close>;
  a literal period; a top-level label of at least two letters.
\<close>

definition spec_address_ex :: rx where
  "spec_address_ex = cat
     [AtLeast 1 (Class [Range (CHR ''a'') (CHR ''z''), Range (CHR ''A'') (CHR ''Z''),
                        Range (CHR ''0'') (CHR ''9''), One (CHR ''.''), One (CHR ''_''),
                        One (CHR ''%''), One (CHR ''+''), One (CHR ''-'')]),
      Atom (Lit (CHR ''@'')),
      AtLeast 1 (Class [Range (CHR ''a'') (CHR ''z''), Range (CHR ''A'') (CHR ''Z''),
                        Range (CHR ''0'') (CHR ''9''), One (CHR ''.''), One (CHR ''-'')]),
      Atom (Lit (CHR ''.'')),
      AtLeast 2 (Class [Range (CHR ''a'') (CHR ''z''), Range (CHR ''A'') (CHR ''Z'')])]"









section \<open>Test doubles\<close>

text \<open>
  A remote service that plays back a script: the n-th call gets the n-th outcome, and
  a call past the end of the script raises. Its state is the number of calls so far.
\<close>

definition text_reply :: "string \<Rightarrow> py_error + completion" where
  "text_reply t = Inr \<lparr>choices = [\<lparr>message = \<lparr>content = Some t\<rparr>\<rparr>]\<rparr>"

definition scripted :: "(py_error + completion) list \<Rightarrow> nat remote" where
  "scripted outcomes req n = (if n < length outcomes then outcomes ! n else Inl APIError, Suc n)"

definition fresh :: "nat world" where
  "fresh = \<lparr>remote_st = 0, calls = [], logs = []\<rparr>"

definition complaint_email :: email where
  "complaint_email = map_of
     [(''id'', ''001''),
      (''from'', ''angry.customer@example.com''),
      (''subject'', ''Broken product received''),
      (''body'', ''It arrived completely damaged.''),
      (''timestamp'', ''2024-03-15T10:30:00Z'')]"

definition no_id_email :: email where
  "no_id_email = map_of
     [(''from'', ''angry.customer@example.com''),
      (''subject'', ''Broken product received''),
      (''body'', ''It arrived completely damaged.''),
      (''timestamp'', ''2024-03-15T10:30:00Z'')]"

section \<open>Evaluation of the fixed inputs\<close>

lemma keys_subset_code [code_unfold]: "(A \<subseteq> dom m) = (\<forall>k\<in>A. m k \<noteq> None)"
  by auto

lemma complaint_email_fields:
  "complaint_email ''id'' = Some ''001''"
  "complaint_email ''from'' = Some ''angry.customer@example.com''"
  "complaint_email ''subject'' = Some ''Broken product received''"
  "complaint_email ''body'' = Some ''It arrived completely damaged.''"
  "complaint_email ''timestamp'' = Some ''2024-03-15T10:30:00Z''"
  by (simp_all add: complaint_email_def)

lemma complaint_email_keys: "mandatory_keys \<subseteq> dom complaint_email"
  by (simp add: mandatory_keys_def complaint_email_def)

lemma address_accepted: "re_match email_ex ''angry.customer@example.com'' \<noteq> None"
  by code_simp

lemma bad_address_rejected: "re_match email_ex ''not-an-email'' = None"
  by code_simp

lemma address_examples:
  "re_match spec_address_ex ''john_doe@example.com'' = Some ([], [])"
  "re_match email_ex ''john_doe@example.com'' = None"
  "re_match spec_address_ex ''a@bcde'' = None"
  "re_match email_ex ''a@bcde'' = Some ([], [])"
  "re_match spec_address_ex ''not-an-email'' = None"
  by code_simp+

lemma timestamp_accepted:
  "strptime ''2024-03-15T10:30:00Z'' =
     Inr \<lparr>year = 2024, month = 3, day = 15, hour = 10, minute = 30, second = 0\<rparr>"
  by code_simp



lemma complaint_email_valid: "validate_email complaint_email w = (True, w)"
  using complaint_email_keys address_accepted
  by (simp add: validate_email_def complaint_email_fields timestamp_accepted)

lemma message_content_text_reply: "message_content (text_reply t) = Inr t"
  by (simp add: message_content_def first_content_def text_reply_def)

lemma message_content_raise: "message_content (Inl e) = Inl e"
  by (simp add: message_content_def)

lemma normalise_examples:
  "lower (strip ''Complaint'') = ''complaint''"
  "lower (strip '' complaint '') = ''complaint''"
  "lower (strip ''COMPLAINT'') = ''complaint''"
  "lower (strip '' Complaint '') = ''complaint''"
  "lower (strip ''unsure'') = ''unsure''"
  "lower (strip '''') = ''''"
  "strip ''  We are sorry.  '' = ''We are sorry.''"
  "strip ''   '' = ''''"
  by code_simp+


section \<open>The stages, one by one\<close>

lemma validate_email_true:
  assumes "fst (validate_email email w)"
  shows "validate_email email w = (True, w)" and "mandatory_keys \<subseteq> dom email"
  using assms by (auto simp: validate_email_def split: sum.splits if_splits)

lemma validate_email_false:
  assumes "\<not> fst (validate_email email w)"
  shows "\<exists>line. validate_email email w = (False, logger_info line w)"
  using assms by (auto simp: validate_email_def split: sum.splits if_splits)

lemma validate_email_indep:
  "fst (validate_email email w) = fst (validate_email email w')"
  by (auto simp: validate_email_def split: sum.splits if_splits)

lemma mandatory_fields:
  assumes "mandatory_keys \<subseteq> dom email"
  obtains i f s b t where "email ''id'' = Some i" "email ''from'' = Some f"
    "email ''subject'' = Some s" "email ''body'' = Some b" "email ''timestamp'' = Some t"
  using assms unfolding mandatory_keys_def by auto

lemma classify_email_text:
  assumes "email ''body'' = Some b" "email ''subject'' = Some s"
    and "client (classify_request b s) (remote_st w) = (r, s1)"
    and "message_content r = Inr t"
  shows "classify_email client email w =
           (Inr (Some (if lower (strip t) \<in> valid_categories then lower (strip t) else ''other'')),
            w\<lparr>remote_st := s1, calls := calls w @ [classify_request b s]\<rparr>)"
  using assms by (simp add: classify_email_def create_def Let_def)

lemma classify_email_error:
  assumes "email ''body'' = Some b" "email ''subject'' = Some s" "email ''id'' = Some i"
    and "client (classify_request b s) (remote_st w) = (r, s1)"
    and "message_content r = Inl e"
  shows "classify_email client email w =
           (Inr None, logger_info (''Error classifying email with id '' @ i)
                        (w\<lparr>remote_st := s1, calls := calls w @ [classify_request b s]\<rparr>))"
  using assms by (simp add: classify_email_def create_def)

lemma generate_response_text:
  assumes "email ''body'' = Some b" "dict_prompt category = Some instr"
    and "client (response_request b instr) (remote_st w) = (r, s1)"
    and "message_content r = Inr t"
  shows "generate_response client email category w =
           (Inr (Some (strip t)),
            w\<lparr>remote_st := s1, calls := calls w @ [response_request b instr]\<rparr>)"
  using assms by (simp add: generate_response_def create_def)

lemma generate_response_error:
  assumes "email ''body'' = Some b" "dict_prompt category = Some instr" "email ''id'' = Some i"
    and "client (response_request b instr) (remote_st w) = (r, s1)"
    and "message_content r = Inl e"
  shows "generate_response client email category w =
           (Inr None, logger_info (''Error generating response to email with id '' @ i)
                        (w\<lparr>remote_st := s1, calls := calls w @ [response_request b instr]\<rparr>))"
  using assms by (simp add: generate_response_def create_def)

lemma dict_prompt_dom: "dom dict_prompt = valid_categories"
  by (auto simp: dict_prompt_def valid_categories_def)

lemma process_email_invalid:
  assumes "\<not> fst (validate_email email w)"
  shows "process_email client email w =
           (Inr (failure (get_id email) ''Email in invalid format.''), snd (validate_email email w))"
  using assms by (cases "validate_email email w") (simp add: process_email_def)

lemma process_email_valid:
  assumes "fst (validate_email email w)"
  shows "process_email client email w =
     (case classify_email client email w of
        (Inl e, w2) \<Rightarrow> (Inl e, w2)
      | (Inr category, w2) \<Rightarrow>
          if \<not> truthy category
          then (Inr (failure (the (email ''id'')) ''Email classification error.''), w2)
          else
     (case generate_response client email (the category) w2 of
        (Inl e, w3) \<Rightarrow> (Inl e, w3)
      | (Inr response, w3) \<Rightarrow>
          if \<not> truthy response
          then (Inr (failure (the (email ''id'')) ''Response generation error.''), w3)
          else
          (Inr \<lparr>email_id = the (email ''id''), success = True, classification = the category,
                response_sent = response\<rparr>,
           send_response (the (email ''id'')) (the response) w3)))"
proof -
  from validate_email_true[OF assms] have v: "validate_email email w = (True, w)"
    and k: "mandatory_keys \<subseteq> dom email" by auto
  from k obtain i where "email ''id'' = Some i" by (rule mandatory_fields)
  then show ?thesis using v
    by (simp add: process_email_def getitem_def split: prod.splits sum.splits)
qed

lemma category_in_dict:
  "\<exists>instr. dict_prompt (if c \<in> valid_categories then c else ''other'') = Some instr"
proof -
  have "(if c \<in> valid_categories then c else ''other'') \<in> dom dict_prompt"
    unfolding dict_prompt_dom by (simp add: valid_categories_def)
  then show ?thesis by auto
qed

lemma category_nonempty:
  "(if c \<in> valid_categories then c else ''other'') \<noteq> []"
  by (auto simp: valid_categories_def)

lemma classify_email_cases:
  assumes "email ''body'' = Some b" and "email ''subject'' = Some s" and "email ''id'' = Some i"
  shows "(\<exists>c s1. c \<in> valid_categories \<and> classify_email client email w =
            (Inr (Some c), w\<lparr>remote_st := s1, calls := calls w @ [classify_request b s]\<rparr>))
         \<or> (\<exists>s1. classify_email client email w =
            (Inr None, logger_info (''Error classifying email with id '' @ i)
               (w\<lparr>remote_st := s1, calls := calls w @ [classify_request b s]\<rparr>)))"
proof -
  obtain r s1 where call: "client (classify_request b s) (remote_st w) = (r, s1)"
    by (cases "client (classify_request b s) (remote_st w)")
  show ?thesis
  proof (cases "message_content r")
    case (Inl e)
    from classify_email_error[of email b s i client w r s1 e] assms call Inl
    show ?thesis by blast
  next
    case (Inr t)
    have "(if lower (strip t) \<in> valid_categories then lower (strip t) else ''other'')
            \<in> valid_categories"
      by (simp add: valid_categories_def)
    with classify_email_text[of email b s client w r s1 t] assms call Inr
    show ?thesis by blast
  qed
qed

lemma generate_response_cases:
  assumes "email ''body'' = Some b" and "email ''id'' = Some i"
    and "dict_prompt category = Some instr"
  shows "(\<exists>t s1. generate_response client email category w =
            (Inr (Some t), w\<lparr>remote_st := s1, calls := calls w @ [response_request b instr]\<rparr>))
         \<or> (\<exists>s1. generate_response client email category w =
            (Inr None, logger_info (''Error generating response to email with id '' @ i)
               (w\<lparr>remote_st := s1, calls := calls w @ [response_request b instr]\<rparr>)))"
proof -
  obtain r s1 where call: "client (response_request b instr) (remote_st w) = (r, s1)"
    by (cases "client (response_request b instr) (remote_st w)")
  show ?thesis
  proof (cases "message_content r")
    case (Inl e)
    from generate_response_error[of email b category instr i client w r s1 e] assms call Inl
    show ?thesis by blast
  next
    case (Inr t)
    from generate_response_text[of email b category instr client w r s1 t] assms call Inr
    show ?thesis by blast
  qed
qed

text \<open>
  The four ways \<open>process_email\<close> ends, each with the world it leaves: it never raises,
  and the requests it sent and the lines it logged tell which stages ran.
\<close>

lemma process_email_cases:
  obtains
    (invalid) line where "\<not> fst (validate_email email w)"
      "process_email client email w =
         (Inr (failure (get_id email) ''Email in invalid format.''), logger_info line w)"
  | (classification_error) i b s s1 where "fst (validate_email email w)"
      "email ''id'' = Some i" "email ''body'' = Some b" "email ''subject'' = Some s"
      "process_email client email w =
         (Inr (failure i ''Email classification error.''),
          w\<lparr>remote_st := s1, calls := calls w @ [classify_request b s],
            logs := logs w @ [''Error classifying email with id '' @ i]\<rparr>)"
  | (generation_error) i b s instr s2 ls where "fst (validate_email email w)"
      "email ''id'' = Some i" "email ''body'' = Some b" "email ''subject'' = Some s"
      "ls = [] \<or> ls = [''Error generating response to email with id '' @ i]"
      "process_email client email w =
         (Inr (failure i ''Response generation error.''),
          w\<lparr>remote_st := s2,
            calls := calls w @ [classify_request b s, response_request b instr],
            logs := logs w @ ls\<rparr>)"
  | (success) i b s c instr t s2 where "fst (validate_email email w)"
      "email ''id'' = Some i" "email ''body'' = Some b" "email ''subject'' = Some s"
      "c \<in> valid_categories" "t \<noteq> []"
      "process_email client email w =
         (Inr \<lparr>email_id = i, success = True, classification = c, response_sent = Some t\<rparr>,
          w\<lparr>remote_st := s2,
            calls := calls w @ [classify_request b s, response_request b instr],
            logs := logs w @ [''Sending complaint response for email '' @ i]\<rparr>)"
proof (cases "fst (validate_email email w)")
  case False
  from validate_email_false[OF False] obtain line where
    "validate_email email w = (False, logger_info line w)" by blast
  with process_email_invalid[OF False, of client] False invalid show ?thesis by simp
next
  case True
  from validate_email_true(2)[OF True] obtain i f s b t where
    fields: "email ''id'' = Some i" "email ''subject'' = Some s" "email ''body'' = Some b"
    by (rule mandatory_fields)
  from classify_email_cases[OF fields(3) fields(2) fields(1), of client w]
  consider (none) s1 where "classify_email client email w =
            (Inr None, logger_info (''Error classifying email with id '' @ i)
               (w\<lparr>remote_st := s1, calls := calls w @ [classify_request b s]\<rparr>))"
    | (some) c s1 where "c \<in> valid_categories" "classify_email client email w =
            (Inr (Some c), w\<lparr>remote_st := s1, calls := calls w @ [classify_request b s]\<rparr>)"
    by blast
  then show ?thesis
  proof cases
    case none
    have "process_email client email w =
         (Inr (failure i ''Email classification error.''),
          w\<lparr>remote_st := s1, calls := calls w @ [classify_request b s],
            logs := logs w @ [''Error classifying email with id '' @ i]\<rparr>)"
      using none fields by (simp add: process_email_valid[OF True] logger_info_def)
    with classification_error True fields show ?thesis by blast
  next
    case some
    let ?w1 = "w\<lparr>remote_st := s1, calls := calls w @ [classify_request b s]\<rparr>"
    from some(1) obtain instr where instr: "dict_prompt c = Some instr"
      using dict_prompt_dom by blast
    have cne: "c \<noteq> []" using some(1) by (auto simp: valid_categories_def)
    from generate_response_cases[OF fields(3) fields(1) instr, of client ?w1]
    consider (gnone) s2 where "generate_response client email c ?w1 =
            (Inr None, logger_info (''Error generating response to email with id '' @ i)
               (?w1\<lparr>remote_st := s2, calls := calls ?w1 @ [response_request b instr]\<rparr>))"
      | (gsome) t s2 where "generate_response client email c ?w1 =
            (Inr (Some t), ?w1\<lparr>remote_st := s2, calls := calls ?w1 @ [response_request b instr]\<rparr>)"
      by blast
    then show ?thesis
    proof cases
      case gnone
      have "process_email client email w =
         (Inr (failure i ''Response generation error.''),
          w\<lparr>remote_st := s2,
            calls := calls w @ [classify_request b s, response_request b instr],
            logs := logs w @ [''Error generating response to email with id '' @ i]\<rparr>)"
        using some(2) gnone fields cne
        by (simp add: process_email_valid[OF True] logger_info_def)
      with generation_error[where ls = "[''Error generating response to email with id '' @ i]"]
        True fields show ?thesis by blast
    next
      case gsome
      show ?thesis
      proof (cases "t = []")
        case True
        have "process_email client email w =
           (Inr (failure i ''Response generation error.''),
            w\<lparr>remote_st := s2,
              calls := calls w @ [classify_request b s, response_request b instr],
              logs := logs w @ []\<rparr>)"
          using some(2) gsome fields cne True
          by (simp add: process_email_valid[OF \<open>fst (validate_email email w)\<close>])
        with generation_error[where ls = "[]"]
          \<open>fst (validate_email email w)\<close> fields show ?thesis by blast
      next
        case False
        have "process_email client email w =
           (Inr \<lparr>email_id = i, success = True, classification = c, response_sent = Some t\<rparr>,
            w\<lparr>remote_st := s2,
              calls := calls w @ [classify_request b s, response_request b instr],
              logs := logs w @ [''Sending complaint response for email '' @ i]\<rparr>)"
          using some(2) gsome fields cne False
          by (simp add: process_email_valid[OF True] send_response_def logger_info_def)
        with success True fields some(1) False show ?thesis by blast
      qed
    qed
  qed
qed

lemma process_email_total:
  "\<exists>r w1. process_email client email w = (Inr r, w1)
     \<and> email_id r = get_id email
     \<and> ((\<not> success r \<and> classification r = ''Email in invalid format.'')
          = (\<not> fst (validate_email email w)))"
  by (cases rule: process_email_cases[of email w client]) (auto simp: failure_def get_id_def)

lemma missing_field_invalid:
  assumes "k \<in> mandatory_keys" and "email k = None"
  shows "\<not> fst (validate_email email w)"
    and "fst (process_email client email w) =
           Inr \<lparr>email_id = get_id email, success = False,
                classification = ''Email in invalid format.'', response_sent = None\<rparr>"
proof -
  from assms have "\<not> mandatory_keys \<subseteq> dom email" by auto
  then show v: "\<not> fst (validate_email email w)" by (simp add: validate_email_def)
  from process_email_invalid[OF v, of client]
  show "fst (process_email client email w) =
           Inr \<lparr>email_id = get_id email, success = False,
                classification = ''Email in invalid format.'', response_sent = None\<rparr>"
    by (simp add: failure_def)
qed


lemma bad_address_run:
  "process_email (scripted []) (complaint_email(''from'' \<mapsto> ''not-an-email'')) fresh =
     (Inr (failure ''001'' ''Email in invalid format.''),
      fresh\<lparr>logs := [''email with id 001 has incorrect 'from' address format.'']\<rparr>)"
  by (simp add: process_email_def validate_email_def mandatory_keys_def complaint_email_def
      bad_address_rejected get_id_def logger_info_def fresh_def)

lemma classification_error_run:
  "process_email (scripted []) complaint_email fresh =
     (Inr (failure ''001'' ''Email classification error.''),
      \<lparr>remote_st = 1,
       calls = [classify_request ''It arrived completely damaged.'' ''Broken product received''],
       logs = [''Error classifying email with id 001'']\<rparr>)"
  using classify_email_error[of complaint_email "''It arrived completely damaged.''"
      "''Broken product received''" "''001''" "scripted []" fresh "Inl APIError" 1 APIError]
  by (simp add: process_email_valid complaint_email_valid complaint_email_fields
      message_content_raise scripted_def fresh_def logger_info_def)


section \<open>The loop of the batch runner\<close>

lemma run_loop_results:
  assumes "\<forall>e\<in>set emails. e ''id'' \<noteq> None"
  shows "\<exists>rs w'. run_loop client emails acc w = (Inr (acc @ rs), w')
           \<and> list_all2 (\<lambda>e r. (\<exists>wk. fst (process_email client e wk) = Inr r)
                  \<and> email_id r = get_id e
                  \<and> ((\<not> success r \<and> classification r = ''Email in invalid format.'')
                       = (\<not> fst (validate_email e w0)))) emails rs"
  using assms
proof (induction emails arbitrary: acc w)
  case Nil
  then show ?case by simp
next
  case (Cons e emails)
  from Cons.prems obtain i where i: "e ''id'' = Some i" by auto
  let ?w = "logger_info (nl @ ''Processing email '' @ i @ ''...'') w"
  from process_email_total[of client e ?w] obtain r w1 where
    p: "process_email client e ?w = (Inr r, w1)" and
    id: "email_id r = get_id e" and
    inv: "(\<not> success r \<and> classification r = ''Email in invalid format.'')
            = (\<not> fst (validate_email e ?w))"
    by blast
  from Cons.prems have "\<forall>e\<in>set emails. e ''id'' \<noteq> None" by simp
  from Cons.IH[OF this, of "acc @ [r]" w1] obtain rs w' where
    rest: "run_loop client emails (acc @ [r]) w1 = (Inr ((acc @ [r]) @ rs), w')" and
    all: "list_all2 (\<lambda>e r. (\<exists>wk. fst (process_email client e wk) = Inr r)
                  \<and> email_id r = get_id e
                  \<and> ((\<not> success r \<and> classification r = ''Email in invalid format.'')
                       = (\<not> fst (validate_email e w0)))) emails rs"
    by blast
  have run: "run_loop client (e # emails) acc w = (Inr (acc @ (r # rs)), w')"
    using i p rest by (simp add: getitem_def)
  have here: "\<exists>wk. fst (process_email client e wk) = Inr r"
    using p by (metis fst_conv)
  have inv0: "(\<not> success r \<and> classification r = ''Email in invalid format.'')
            = (\<not> fst (validate_email e w0))"
    using inv validate_email_indep[of e ?w w0] by simp
  from run here id inv0 all show ?case by blast
qed


lemma list_all2_map_eq:
  "list_all2 (\<lambda>e r. f r = g e) es rs \<Longrightarrow> map f rs = map g es"
  by (induction es rs rule: list_all2_induct) simp_all

lemma list_all2_filter_empty:
  "list_all2 (\<lambda>e r. \<not> P r) es rs \<Longrightarrow> filter P rs = []"
  by (induction es rs rule: list_all2_induct) simp_all

text \<open>The run of the program itself: the five sample emails are valid and give five rows.\<close>

lemma sample_emails_valid: "list_all (\<lambda>e. fst (validate_email e w)) sample_emails"
proof -
  have "list_all (\<lambda>e. fst (validate_email e fresh)) sample_emails"
    by code_simp
  then show ?thesis
    using validate_email_indep[of _ w fresh] by (simp add: list_all_iff)
qed

lemma run_demonstration_rows:
  "\<exists>rs w'. run_demonstration client w = (Inr rs, w')
     \<and> map email_id rs = [''001'', ''002'', ''003'', ''004'', ''005'']
     \<and> filter (\<lambda>r. \<not> success r \<and> classification r = ''Email in invalid format.'') rs = []"
proof -
  have ids: "\<forall>e\<in>set sample_emails. e ''id'' \<noteq> None"
    by (simp add: sample_emails_def)
  from run_loop_results[OF ids, of client "[]" w w] obtain rs w' where
    run: "run_loop client sample_emails [] w = (Inr rs, w')" and
    all: "list_all2 (\<lambda>e r. (\<exists>wk. fst (process_email client e wk) = Inr r)
                  \<and> email_id r = get_id e
                  \<and> ((\<not> success r \<and> classification r = ''Email in invalid format.'')
                       = (\<not> fst (validate_email e w)))) sample_emails rs"
    by auto
  have a: "list_all2 (\<lambda>e r. email_id r = get_id e) sample_emails rs"
    using all by (rule list_all2_mono) simp
  have "map email_id rs = map get_id sample_emails"
    using a by (rule list_all2_map_eq)
  also have "\<dots> = [''001'', ''002'', ''003'', ''004'', ''005'']"
    by (simp add: sample_emails_def get_id_def)
  finally have m: "map email_id rs = [''001'', ''002'', ''003'', ''004'', ''005'']" .
  have b: "list_all2 (\<lambda>e r. fst (validate_email e w)
             \<and> ((\<not> success r \<and> classification r = ''Email in invalid format.'')
                  = (\<not> fst (validate_email e w)))) sample_emails rs"
    using all sample_emails_valid[of w]
    by (simp add: list_all2_conv_all_nth list_all_length)
  have "list_all2 (\<lambda>e r. \<not> (\<not> success r \<and> classification r = ''Email in invalid format.''))
          sample_emails rs"
    using b by (rule list_all2_mono) simp
  then have f: "filter (\<lambda>r. \<not> success r \<and> classification r = ''Email in invalid format.'') rs = []"
    by (rule list_all2_filter_empty)
  from run m f show ?thesis by (auto simp: run_demonstration_def)
qed


section \<open>The timestamp check\<close>


lemma code_lit [simp]:
  "code (CHR ''0'') = 48" "code (CHR ''1'') = 49" "code (CHR ''2'') = 50"
  "code (CHR ''3'') = 51" "code (CHR ''5'') = 53" "code (CHR ''6'') = 54"
  "code (CHR ''9'') = 57" "code (CHR ''-'') = 45" "code (CHR '':'') = 58"
  "code (CHR '' '') = 32" "code (CHR ''T'') = 84" "code (CHR ''Z'') = 90"
  "code (CHR ''t'') = 116" "code (CHR ''z'') = 122"
  by (simp_all add: code_def)






































section \<open>The claims\<close>

text \<open>
  Claim C1. The address check of the validator and the pattern of the specification
  differ: \<open>john_doe@example.com\<close> matches the specification's pattern and is rejected,
  \<open>a@bcde\<close> has no period and is accepted. \<open>not-an-email\<close> is rejected by both.
\<close>

theorem C1_address_pattern_differs:
  "re_match spec_address_ex ''john_doe@example.com'' \<noteq> None
   \<and> fst (validate_email (complaint_email(''from'' \<mapsto> ''john_doe@example.com'')) w) = False
   \<and> re_match spec_address_ex ''a@bcde'' = None
   \<and> fst (validate_email (complaint_email(''from'' \<mapsto> ''a@bcde'')) w) = True
   \<and> fst (validate_email (complaint_email(''from'' \<mapsto> ''not-an-email'')) w) = False"
  by (simp add: validate_email_def mandatory_keys_def complaint_email_def address_examples
      bad_address_rejected timestamp_accepted)

text \<open>
  Claim C2. An email without one of the five mandatory fields is rejected by
  \<open>_validate_email\<close>, and \<open>process_email\<close> returns the invalid-format failure with no
  response. When the \<open>id\<close> is the missing field the \<open>email_id\<close> of the result is the
  default of \<open>email.get\<close>, which the source spells \<open>Uknown\<close>: it is not the sentinel
  \<open>Unknown\<close>.
\<close>

theorem C2_missing_id_sentinel:
  "fst (validate_email no_id_email w) = False
   \<and> process_email client no_id_email w =
       (Inr \<lparr>email_id = ''Uknown'', success = False,
             classification = ''Email in invalid format.'', response_sent = None\<rparr>,
        w\<lparr>logs := logs w @ [''email with id Uknown has incorrect format.'']\<rparr>)
   \<and> email_id (projr (fst (process_email client no_id_email w))) \<noteq> ''Unknown''"
  by (simp add: process_email_def validate_email_def mandatory_keys_def no_id_email_def
      get_id_def failure_def logger_info_def)



text \<open>
  Claim C4. When the remote call of the classification raises, or its answer cannot be
  read, \<open>classify_email\<close> returns \<open>None\<close> (not the category \<open>other\<close>) and the result of
  \<open>process_email\<close> is the classification failure.
\<close>

theorem C4_classification_failure:
  assumes "fst (validate_email email w)"
    and "client (classify_request (the (email ''body'')) (the (email ''subject''))) (remote_st w)
           = (r1, s1)"
    and "message_content r1 = Inl e"
  shows "fst (classify_email client email w) = Inr None
         \<and> fst (classify_email client email w) \<noteq> Inr (Some ''other'')
         \<and> fst (process_email client email w) =
             Inr \<lparr>email_id = the (email ''id''), success = False,
                  classification = ''Email classification error.'', response_sent = None\<rparr>"
proof -
  from validate_email_true(2)[OF assms(1)] obtain i f s b t where
    fields: "email ''id'' = Some i" "email ''subject'' = Some s" "email ''body'' = Some b"
    by (rule mandatory_fields)
  have c: "fst (classify_email client email w) = Inr None"
    using classify_email_error[of email b s i client w r1 s1 e] assms(2,3) fields by simp
  then show ?thesis
    by (cases "classify_email client email w")
       (simp add: process_email_valid[OF assms(1)] failure_def)
qed

theorem C4_classification_failure_witness:
  "fst (validate_email complaint_email fresh)
   \<and> scripted [] (classify_request (the (complaint_email ''body''))
        (the (complaint_email ''subject''))) (remote_st fresh) = (Inl APIError, 1)
   \<and> message_content (Inl APIError) = Inl APIError
   \<and> fst (classify_email (scripted []) complaint_email fresh) = Inr None
   \<and> fst (process_email (scripted []) complaint_email fresh) =
       Inr \<lparr>email_id = ''001'', success = False,
            classification = ''Email classification error.'', response_sent = None\<rparr>"
proof -
  have h1: "fst (validate_email complaint_email fresh)"
    by (simp add: complaint_email_valid)
  have h2: "scripted [] (classify_request (the (complaint_email ''body''))
              (the (complaint_email ''subject''))) (remote_st fresh) = (Inl APIError, 1)"
    by (simp add: scripted_def fresh_def)
  have h3: "message_content (Inl APIError) = Inl APIError"
    by (rule message_content_raise)
  from C4_classification_failure[where client = "scripted []" and email = complaint_email
      and w = fresh and ?r1.0 = "Inl APIError" and ?s1.0 = 1 and e = APIError, OF h1 h2 h3]
    h1 h2 h3
  show ?thesis by (simp add: complaint_email_fields)
qed

text \<open>
  Claim C5. When the classification succeeds and the remote call of the response
  generation fails, the result is the generation failure, and its \<open>classification\<close>
  field holds the error phrase, not the category.
\<close>

theorem C5_generation_failure:
  assumes "fst (validate_email email w)"
    and "client (classify_request (the (email ''body'')) (the (email ''subject''))) (remote_st w)
           = (r1, s1)"
    and "message_content r1 = Inr t1"
    and "category = (if lower (strip t1) \<in> valid_categories then lower (strip t1) else ''other'')"
    and "client (response_request (the (email ''body'')) (the (dict_prompt category))) s1
           = (r2, s2)"
    and "message_content r2 = Inl e"
  shows "fst (classify_email client email w) = Inr (Some category)
         \<and> fst (process_email client email w) =
             Inr \<lparr>email_id = the (email ''id''), success = False,
                  classification = ''Response generation error.'', response_sent = None\<rparr>
         \<and> ''Response generation error.'' \<noteq> category"
proof -
  from validate_email_true(2)[OF assms(1)] obtain i f s b t where
    fields: "email ''id'' = Some i" "email ''subject'' = Some s" "email ''body'' = Some b"
    by (rule mandatory_fields)
  from category_in_dict[of "lower (strip t1)"] assms(4)
  obtain instr where instr: "dict_prompt category = Some instr" by auto
  let ?w1 = "w\<lparr>remote_st := s1, calls := calls w @ [classify_request b s]\<rparr>"
  have c: "classify_email client email w = (Inr (Some category), ?w1)"
    using classify_email_text[of email b s client w r1 s1 t1] assms(2,3,4) fields
    by simp
  have g: "fst (generate_response client email category ?w1) = Inr None"
    using generate_response_error[of email b category instr i client ?w1 r2 s2 e]
      assms(5,6) fields instr
    by simp
  have ne: "category \<noteq> []" using assms(4) category_nonempty by simp
  have ph: "''Response generation error.'' \<noteq> category"
    using assms(4) by (auto simp: valid_categories_def)
  show ?thesis
    using c g ne ph fields
    by (cases "generate_response client email category ?w1")
       (simp add: process_email_valid[OF assms(1)] failure_def)
qed

theorem C5_generation_failure_witness:
  "fst (validate_email complaint_email fresh)
   \<and> scripted [text_reply '' Complaint '']
        (classify_request (the (complaint_email ''body'')) (the (complaint_email ''subject'')))
        (remote_st fresh) = (text_reply '' Complaint '', 1)
   \<and> message_content (text_reply '' Complaint '') = Inr '' Complaint ''
   \<and> scripted [text_reply '' Complaint '']
        (response_request (the (complaint_email ''body'')) (the (dict_prompt ''complaint''))) 1
        = (Inl APIError, 2)
   \<and> message_content (Inl APIError) = Inl APIError
   \<and> fst (classify_email (scripted [text_reply '' Complaint '']) complaint_email fresh)
       = Inr (Some ''complaint'')
   \<and> fst (process_email (scripted [text_reply '' Complaint '']) complaint_email fresh) =
       Inr \<lparr>email_id = ''001'', success = False,
            classification = ''Response generation error.'', response_sent = None\<rparr>"
proof -
  let ?client = "scripted [text_reply '' Complaint '']"
  have h1: "fst (validate_email complaint_email fresh)"
    by (simp add: complaint_email_valid)
  have h2: "?client (classify_request (the (complaint_email ''body''))
              (the (complaint_email ''subject''))) (remote_st fresh)
            = (text_reply '' Complaint '', 1)"
    by (simp add: scripted_def fresh_def)
  have h3: "message_content (text_reply '' Complaint '') = Inr '' Complaint ''"
    by (rule message_content_text_reply)
  have h4: "''complaint'' = (if lower (strip '' Complaint '') \<in> valid_categories
              then lower (strip '' Complaint '') else ''other'')"
    by (simp add: normalise_examples valid_categories_def)
  have h5: "?client (response_request (the (complaint_email ''body''))
              (the (dict_prompt ''complaint''))) 1 = (Inl APIError, 2)"
    by (simp add: scripted_def)
  have h6: "message_content (Inl APIError) = Inl APIError"
    by (rule message_content_raise)
  from C5_generation_failure[where client = ?client and email = complaint_email
      and w = fresh and ?r1.0 = "text_reply '' Complaint ''" and ?s1.0 = 1
      and ?t1.0 = "'' Complaint ''" and category = "''complaint''"
      and ?r2.0 = "Inl APIError" and ?s2.0 = 2 and e = APIError, OF h1 h2 h3 h4 h5 h6]
    h1 h2 h3 h5 h6
  show ?thesis by (simp add: complaint_email_fields)
qed

text \<open>
  Claim C6. Whatever text the remote service returns to the classifier, the text is
  trimmed and lowercased, and the category is that string when it is one of the four
  named categories and \<open>other\<close> in every other case, never a failure; \<open>Complaint\<close>,
  \<open> complaint \<close> and \<open>COMPLAINT\<close> give \<open>complaint\<close>, \<open>unsure\<close> and the empty text give
  \<open>other\<close>.
\<close>

theorem C6_classifier_normalisation:
  assumes "email ''body'' = Some b" and "email ''subject'' = Some s"
    and "client (classify_request b s) (remote_st w) = (r, s1)"
    and "message_content r = Inr t"
  shows "fst (classify_email client email w) =
           Inr (Some (if lower (strip t) \<in> {''complaint'', ''inquiry'', ''feedback'',
                                              ''support_request''}
                      then lower (strip t) else ''other''))
         \<and> (t \<in> {''Complaint'', '' complaint '', ''COMPLAINT''} \<longrightarrow>
              fst (classify_email client email w) = Inr (Some ''complaint''))
         \<and> (t \<in> {''unsure'', ''''} \<longrightarrow>
              fst (classify_email client email w) = Inr (Some ''other''))"
proof -
  have c: "fst (classify_email client email w) =
             Inr (Some (if lower (strip t) \<in> valid_categories then lower (strip t) else ''other''))"
    using classify_email_text[of email b s client w r s1 t] assms by simp
  have four: "(if lower (strip t) \<in> valid_categories then lower (strip t) else ''other'') =
              (if lower (strip t) \<in> {''complaint'', ''inquiry'', ''feedback'', ''support_request''}
               then lower (strip t) else ''other'')"
    by (auto simp: valid_categories_def)
  have ex1: "t \<in> {''Complaint'', '' complaint '', ''COMPLAINT''} \<Longrightarrow>
               fst (classify_email client email w) = Inr (Some ''complaint'')"
    unfolding c by (auto simp: normalise_examples valid_categories_def)
  have ex2: "t \<in> {''unsure'', ''''} \<Longrightarrow> fst (classify_email client email w) = Inr (Some ''other'')"
    unfolding c by (auto simp: normalise_examples valid_categories_def)
  show ?thesis using c four ex1 ex2 by simp
qed

theorem C6_classifier_normalisation_witness:
  "complaint_email ''body'' = Some ''It arrived completely damaged.''
   \<and> complaint_email ''subject'' = Some ''Broken product received''
   \<and> scripted [text_reply ''COMPLAINT'']
        (classify_request ''It arrived completely damaged.'' ''Broken product received'')
        (remote_st fresh) = (text_reply ''COMPLAINT'', 1)
   \<and> message_content (text_reply ''COMPLAINT'') = Inr ''COMPLAINT''
   \<and> fst (classify_email (scripted [text_reply ''COMPLAINT'']) complaint_email fresh)
       = Inr (Some ''complaint'')"
proof -
  have h1: "complaint_email ''body'' = Some ''It arrived completely damaged.''"
    and h2: "complaint_email ''subject'' = Some ''Broken product received''"
    by (simp_all add: complaint_email_fields)
  have h3: "scripted [text_reply ''COMPLAINT'']
        (classify_request ''It arrived completely damaged.'' ''Broken product received'')
        (remote_st fresh) = (text_reply ''COMPLAINT'', 1)"
    by (simp add: scripted_def fresh_def)
  have h4: "message_content (text_reply ''COMPLAINT'') = Inr ''COMPLAINT''"
    by (rule message_content_text_reply)
  from C6_classifier_normalisation[where client = "scripted [text_reply ''COMPLAINT'']"
      and email = complaint_email and w = fresh and r = "text_reply ''COMPLAINT''"
      and ?s1.0 = 1 and t = "''COMPLAINT''", OF h1 h2 h3 h4] h1 h2 h3 h4
  show ?thesis by (simp add: normalise_examples)
qed







text \<open>
  Claim C9. An email that fails validation gets its failure result with no request sent
  to the remote service and the state of the service untouched; after a classification
  failure only the classifier's request has been sent; after a generation failure only
  the two requests, and the notifier has logged nothing.
\<close>

theorem C9_fail_fast:
  assumes "process_email client email w = (res, w')"
  shows "(\<not> fst (validate_email email w) \<longrightarrow>
            res = Inr (failure (get_id email) ''Email in invalid format.'')
            \<and> calls w' = calls w \<and> remote_st w' = remote_st w)
       \<and> (\<forall>i. res = Inr (failure i ''Email classification error.'') \<longrightarrow>
            calls w' = calls w @
              [classify_request (the (email ''body'')) (the (email ''subject''))]
            \<and> logs w' = logs w @ [''Error classifying email with id '' @ i])
       \<and> (\<forall>i. res = Inr (failure i ''Response generation error.'') \<longrightarrow>
            (\<exists>instr. calls w' = calls w @
              [classify_request (the (email ''body'')) (the (email ''subject'')),
               response_request (the (email ''body'')) instr])
            \<and> (logs w' = logs w
                \<or> logs w' = logs w @ [''Error generating response to email with id '' @ i]))
       \<and> (\<exists>r. res = Inr r
            \<and> (success r \<or> classification r = ''Email in invalid format.''
                \<or> classification r = ''Email classification error.''
                \<or> classification r = ''Response generation error.''))"
proof (cases rule: process_email_cases[of email w client])
  case (invalid line)
  then show ?thesis using assms by (auto simp: failure_def logger_info_def)
next
  case (classification_error i b s s1)
  then show ?thesis using assms by (auto simp: failure_def)
next
  case (generation_error i b s instr s2 ls)
  then show ?thesis using assms by (auto simp: failure_def)
next
  case (success i b s c instr t s2)
  then show ?thesis using assms by (auto simp: failure_def)
qed

theorem C9_fail_fast_witness:
  "process_email (scripted []) (complaint_email(''from'' \<mapsto> ''not-an-email'')) fresh =
     (Inr (failure ''001'' ''Email in invalid format.''),
      fresh\<lparr>logs := [''email with id 001 has incorrect 'from' address format.'']\<rparr>)
   \<and> \<not> fst (validate_email (complaint_email(''from'' \<mapsto> ''not-an-email'')) fresh)
   \<and> calls (fresh\<lparr>logs := [''email with id 001 has incorrect 'from' address format.'']\<rparr>)
       = calls fresh
   \<and> remote_st (fresh\<lparr>logs := [''email with id 001 has incorrect 'from' address format.'']\<rparr>)
       = remote_st fresh
   \<and> process_email (scripted []) complaint_email fresh =
     (Inr (failure ''001'' ''Email classification error.''),
      \<lparr>remote_st = 1,
       calls = [classify_request ''It arrived completely damaged.'' ''Broken product received''],
       logs = [''Error classifying email with id 001'']\<rparr>)
   \<and> calls \<lparr>remote_st = 1::nat,
       calls = [classify_request ''It arrived completely damaged.'' ''Broken product received''],
       logs = [''Error classifying email with id 001'']\<rparr>
       = calls fresh @ [classify_request (the (complaint_email ''body''))
                          (the (complaint_email ''subject''))]"
proof -
  have v: "\<not> fst (validate_email (complaint_email(''from'' \<mapsto> ''not-an-email'')) fresh)"
    by (simp add: validate_email_def mandatory_keys_def complaint_email_def
        bad_address_rejected)
  from C9_fail_fast[OF bad_address_run] C9_fail_fast[OF classification_error_run]
    v bad_address_run classification_error_run
  show ?thesis by (simp add: complaint_email_fields fresh_def)
qed

text \<open>
  Claim C10. When the responder's call succeeds and its text is empty once trimmed,
  \<open>generate_response\<close> returns the empty string, not \<open>None\<close>; \<open>process_email\<close> takes it
  for a failure, and its result is the one a raising call gives.
\<close>

theorem C10_empty_reply_is_failure:
  assumes "fst (validate_email email w)"
    and "client (classify_request (the (email ''body'')) (the (email ''subject''))) (remote_st w)
           = (r1, s1)"
    and "message_content r1 = Inr t1"
    and "category = (if lower (strip t1) \<in> valid_categories then lower (strip t1) else ''other'')"
    and "client (response_request (the (email ''body'')) (the (dict_prompt category))) s1
           = (r2, s2)"
    and "message_content r2 = Inr t2"
    and "strip t2 = []"
    and "failing (classify_request (the (email ''body'')) (the (email ''subject''))) (remote_st w)
           = (r1, s1)"
    and "failing (response_request (the (email ''body'')) (the (dict_prompt category))) s1
           = (Inl e, s3)"
  shows "fst (generate_response client email category (snd (classify_email client email w)))
           = Inr (Some [])
         \<and> fst (process_email client email w) =
             Inr \<lparr>email_id = the (email ''id''), success = False,
                  classification = ''Response generation error.'', response_sent = None\<rparr>
         \<and> fst (process_email failing email w) = fst (process_email client email w)"
proof -
  from validate_email_true(2)[OF assms(1)] obtain i f s b t where
    fields: "email ''id'' = Some i" "email ''subject'' = Some s" "email ''body'' = Some b"
    by (rule mandatory_fields)
  from category_in_dict[of "lower (strip t1)"] assms(4)
  obtain instr where instr: "dict_prompt category = Some instr" by auto
  let ?w1 = "w\<lparr>remote_st := s1, calls := calls w @ [classify_request b s]\<rparr>"
  have c: "classify_email client email w = (Inr (Some category), ?w1)"
    using classify_email_text[of email b s client w r1 s1 t1] assms(2,3,4) fields
    by simp
  have c': "classify_email failing email w = (Inr (Some category), ?w1)"
    using classify_email_text[of email b s failing w r1 s1 t1] assms(8,3,4) fields
    by simp
  have g: "fst (generate_response client email category ?w1) = Inr (Some [])"
    using generate_response_text[of email b category instr client ?w1 r2 s2 t2]
      assms(5,6,7) fields instr
    by simp
  have g': "fst (generate_response failing email category ?w1) = Inr None"
    using generate_response_error[of email b category instr i failing ?w1 "Inl e" s3 e]
      assms(9) fields instr
    by (simp add: message_content_raise)
  have ne: "category \<noteq> []" using assms(4) category_nonempty by simp
  have p: "fst (process_email client email w) =
             Inr \<lparr>email_id = the (email ''id''), success = False,
                  classification = ''Response generation error.'', response_sent = None\<rparr>"
    using c g ne fields
    by (cases "generate_response client email category ?w1")
       (simp add: process_email_valid[OF assms(1)] failure_def)
  have p': "fst (process_email failing email w) =
             Inr \<lparr>email_id = the (email ''id''), success = False,
                  classification = ''Response generation error.'', response_sent = None\<rparr>"
    using c' g' ne fields
    by (cases "generate_response failing email category ?w1")
       (simp add: process_email_valid[OF assms(1)] failure_def)
  show ?thesis using c g p p' by simp
qed

theorem C10_empty_reply_is_failure_witness:
  "fst (validate_email complaint_email fresh)
   \<and> scripted [text_reply '' Complaint '', text_reply ''   '']
        (classify_request (the (complaint_email ''body'')) (the (complaint_email ''subject'')))
        (remote_st fresh) = (text_reply '' Complaint '', 1)
   \<and> message_content (text_reply '' Complaint '') = Inr '' Complaint ''
   \<and> scripted [text_reply '' Complaint '', text_reply ''   '']
        (response_request (the (complaint_email ''body'')) (the (dict_prompt ''complaint''))) 1
        = (text_reply ''   '', 2)
   \<and> message_content (text_reply ''   '') = Inr ''   ''
   \<and> strip ''   '' = []
   \<and> scripted [text_reply '' Complaint '']
        (classify_request (the (complaint_email ''body'')) (the (complaint_email ''subject'')))
        (remote_st fresh) = (text_reply '' Complaint '', 1)
   \<and> scripted [text_reply '' Complaint '']
        (response_request (the (complaint_email ''body'')) (the (dict_prompt ''complaint''))) 1
        = (Inl APIError, 2)
   \<and> fst (process_email (scripted [text_reply '' Complaint '', text_reply ''   ''])
            complaint_email fresh) =
       Inr \<lparr>email_id = ''001'', success = False,
            classification = ''Response generation error.'', response_sent = None\<rparr>
   \<and> fst (process_email (scripted [text_reply '' Complaint '']) complaint_email fresh) =
       fst (process_email (scripted [text_reply '' Complaint '', text_reply ''   ''])
            complaint_email fresh)"
proof -
  let ?client = "scripted [text_reply '' Complaint '', text_reply ''   '']"
  let ?failing = "scripted [text_reply '' Complaint '']"
  have h1: "fst (validate_email complaint_email fresh)"
    by (simp add: complaint_email_valid)
  have h2: "?client (classify_request (the (complaint_email ''body''))
              (the (complaint_email ''subject''))) (remote_st fresh)
            = (text_reply '' Complaint '', 1)"
    by (simp add: scripted_def fresh_def)
  have h3: "message_content (text_reply '' Complaint '') = Inr '' Complaint ''"
    by (rule message_content_text_reply)
  have h4: "''complaint'' = (if lower (strip '' Complaint '') \<in> valid_categories
              then lower (strip '' Complaint '') else ''other'')"
    by (simp add: normalise_examples valid_categories_def)
  have h5: "?client (response_request (the (complaint_email ''body''))
              (the (dict_prompt ''complaint''))) 1 = (text_reply ''   '', 2)"
    by (simp add: scripted_def)
  have h6: "message_content (text_reply ''   '') = Inr ''   ''"
    by (rule message_content_text_reply)
  have h7: "strip ''   '' = []"
    by (simp add: normalise_examples)
  have h8: "?failing (classify_request (the (complaint_email ''body''))
              (the (complaint_email ''subject''))) (remote_st fresh)
            = (text_reply '' Complaint '', 1)"
    by (simp add: scripted_def fresh_def)
  have h9: "?failing (response_request (the (complaint_email ''body''))
              (the (dict_prompt ''complaint''))) 1 = (Inl APIError, 2)"
    by (simp add: scripted_def)
  from C10_empty_reply_is_failure[where client = ?client and failing = ?failing
      and email = complaint_email
      and w = fresh and ?r1.0 = "text_reply '' Complaint ''" and ?s1.0 = 1
      and ?t1.0 = "'' Complaint ''" and category = "''complaint''"
      and ?r2.0 = "text_reply ''   ''" and ?s2.0 = 2 and ?t2.0 = "''   ''" and e = APIError
      and ?s3.0 = 2, OF h1 h2 h3 h4 h5 h6 h7 h8 h9]
    h1 h2 h3 h5 h6 h7 h8 h9
  show ?thesis by (simp add: complaint_email_fields)
qed

end
